theory Spec2Isabelle
  imports Complex_Main "HOL-Library.Word"
begin

section \<open>Audio-reactive circular waveform (src/Wave.tsx)\<close>

text \<open>
  The file renders six circular layers whose vertices are moved once per rendered frame
  from the microphone's time-domain bytes. JavaScript numbers are read as real numbers
  (rounding of doubles and of the \<^verbatim>\<open>Float32Array\<close> cells is left out), bytes of the
  \<^verbatim>\<open>Uint8Array\<close> as 8-bit words, entries of the \<^verbatim>\<open>Uint16Array\<close> as 16-bit words, and
  typed arrays as lists updated by index. Calls of \<^verbatim>\<open>Math.random()\<close> are an explicit
  input: the draws of one frame are a function from the call's number to its value.
\<close>

subsection \<open>Data model\<close>

type_synonym byte = "8 word"

text \<open>\<^verbatim>\<open>const bufferLength = 512\<close> in both components.\<close>

definition bufferLength :: nat where
  "bufferLength = 512"

text \<open>One entry of \<^verbatim>\<open>undulationPattern\<close>.\<close>

record Undulation =
  frequency :: real
  amplitude :: real
  speed :: real

text \<open>
  \<^verbatim>\<open>WaveformProps\<close> after the destructuring with defaults of each component: the fields both
  components read, then the ones only \<^verbatim>\<open>FilledWaveform\<close> reads (\<^verbatim>\<open>color2\<close>, \<^verbatim>\<open>speedScale\<close>)
  and the ones only \<^verbatim>\<open>OutlineWaveform\<close> reads (the two response rates).
\<close>

record Waveform =
  baseRadius :: real
  color :: string
  opacity :: real
  smoothingFactor :: real
  audioScale :: real
  pulseScale :: real
  undulationPattern :: "Undulation list"

record FilledWaveformProps = Waveform +
  color2 :: string
  speedScale :: real

record OutlineWaveformProps = Waveform +
  increaseResponseRate :: real
  decreaseResponseRate :: real

text \<open>The default values of the two destructuring patterns.\<close>

definition FilledWaveform_defaults :: FilledWaveformProps where
  "FilledWaveform_defaults =
     \<lparr>baseRadius = 10, color = ''#4a9eff'', opacity = 0.4, smoothingFactor = 0.1,
      audioScale = 0.8, pulseScale = 0.2,
      undulationPattern =
        [\<lparr>frequency = 3, amplitude = 0.3, speed = 0.8\<rparr>,
         \<lparr>frequency = 5, amplitude = 0.2, speed = 0.5\<rparr>,
         \<lparr>frequency = 2, amplitude = 0.4, speed = 1.2\<rparr>],
      color2 = ''#0066cc'', speedScale = 0.5\<rparr>"

definition OutlineWaveform_defaults :: OutlineWaveformProps where
  "OutlineWaveform_defaults =
     \<lparr>baseRadius = 10, color = ''#ff1493'', opacity = 0.8, smoothingFactor = 0.1,
      audioScale = 0.8, pulseScale = 0.2,
      undulationPattern =
        [\<lparr>frequency = 2, amplitude = 0.3, speed = 1.5\<rparr>,
         \<lparr>frequency = 4, amplitude = 0.4, speed = 0.4\<rparr>,
         \<lparr>frequency = 3, amplitude = 0.2, speed = 0.6\<rparr>],
      increaseResponseRate = 2.0, decreaseResponseRate = 0.5\<rparr>"

text \<open>
  The refs and the React state of one layer instance. \<^verbatim>\<open>positions\<close> is the array of the
  geometry's position attribute; \<^verbatim>\<open>previousAudioLevel\<close> exists in the outline only.
\<close>

record LayerState =
  previousSpeedMultiplier :: real
  currentRadii :: "real list"
  rotationDirections :: "real list"
  positions :: "real list"
  currentOpacity :: real

record OutlineState = LayerState +
  previousAudioLevel :: real

text \<open>
  What one call of the \<^verbatim>\<open>useFrame\<close> callback sees. \<^verbatim>\<open>analyser\<close> is \<open>None\<close> while
  \<^verbatim>\<open>analyserRef.current\<close> and \<^verbatim>\<open>dataArrayRef.current\<close> are null (both are set together, after
  \<^verbatim>\<open>getUserMedia\<close> succeeded; on failure the error is logged and they stay null), and
  otherwise holds the bytes that \<^verbatim>\<open>getByteTimeDomainData\<close> stores into the data array.
  The data array is a \<^verbatim>\<open>Uint8Array(analyser.frequencyBinCount)\<close>, that is of 512 bytes;
  every statement below that reads the bytes fixes a list of that length.
  \<^verbatim>\<open>meshRef\<close> tells whether the mesh (or line loop) ref is set.
\<close>

record Frame =
  analyser :: "byte list option"
  meshRef :: bool
  elapsedTime :: real
  random :: "nat \<Rightarrow> real"

subsection \<open>Per-frame quantities shared by both components\<close>

definition angle :: "nat \<Rightarrow> real" where
  "angle i = (real i / real bufferLength) * pi * 2 - pi / 2"

definition audioSum :: "byte list \<Rightarrow> real" where
  "audioSum dataArray =
     fold (\<lambda>i s. s + \<bar>real (unat (dataArray ! i)) - 128\<bar>) [0..<bufferLength] 0"

definition averageAudio :: "real \<Rightarrow> byte list \<Rightarrow> real" where
  "averageAudio scale dataArray = (audioSum dataArray / real bufferLength) * scale"

definition audioAmplification :: "real \<Rightarrow> real" where
  "audioAmplification avg = 1 + (avg / 128) * 2"

definition targetSpeedMultiplier :: "real \<Rightarrow> real \<Rightarrow> real" where
  "targetSpeedMultiplier avg scale = min 2.0 (1 + (avg / 128) * scale)"

definition clampedSpeed :: "Undulation \<Rightarrow> real \<Rightarrow> real" where
  "clampedSpeed u psm = min (speed u * 2) (speed u * psm)"

text \<open>The body of the \<^verbatim>\<open>reduce\<close> callback, and the reduction from 0 with the entry's index.\<close>

definition undulationTerm :: "real \<Rightarrow> real list \<Rightarrow> real \<Rightarrow> real \<Rightarrow> nat \<times> Undulation \<Rightarrow> real \<Rightarrow> real" where
  "undulationTerm psm dirs a t = (\<lambda>(index, u) acc.
     acc
     + sin (a * frequency u + t * clampedSpeed u psm * (dirs ! index)) * amplitude u
     + cos (a * frequency u + t * clampedSpeed u psm * (dirs ! index)) * amplitude u)"

definition undulation :: "Undulation list \<Rightarrow> real \<Rightarrow> real list \<Rightarrow> real \<Rightarrow> real \<Rightarrow> real" where
  "undulation pattern psm dirs a t = fold (undulationTerm psm dirs a t) (enumerate 0 pattern) 0"

text \<open>
  \<^verbatim>\<open>(i - 1 + bufferLength) % bufferLength\<close>: the sum is computed before the subtraction,
  since subtraction on \<open>nat\<close> stops at 0.
\<close>

definition prevIndex :: "nat \<Rightarrow> nat" where
  "prevIndex i = (i + bufferLength - 1) mod bufferLength"

definition nextIndex :: "nat \<Rightarrow> nat" where
  "nextIndex i = (i + 1) mod bufferLength"

definition sample :: "byte list \<Rightarrow> nat \<Rightarrow> real" where
  "sample dataArray i = real (unat (dataArray ! i))"

definition smoothedAudio :: "byte list \<Rightarrow> nat \<Rightarrow> real" where
  "smoothedAudio dataArray i =
     (sample dataArray (prevIndex i) + sample dataArray i * 2 + sample dataArray (nextIndex i)) / 4"

definition audioEffect :: "byte list \<Rightarrow> nat \<Rightarrow> real \<Rightarrow> real \<Rightarrow> real" where
  "audioEffect dataArray i scale amp = ((smoothedAudio dataArray i - 128) / 128) * scale * amp"

definition pulseEffect :: "real \<Rightarrow> real \<Rightarrow> real \<Rightarrow> real" where
  "pulseEffect base avg pulse = base * (avg / 128) * pulse"

definition pulsedRadius :: "real \<Rightarrow> real \<Rightarrow> real \<Rightarrow> real" where
  "pulsedRadius base avg pulse = base + pulseEffect base avg pulse"

text \<open>\<^verbatim>\<open>undulationPattern.map(() => (Math.random() > 0.5 ? 1 : -1))\<close>, one draw per entry.\<close>

definition initialDirections :: "Undulation list \<Rightarrow> (nat \<Rightarrow> real) \<Rightarrow> real list" where
  "initialDirections pattern draws =
     map (\<lambda>k. if draws k > 0.5 then 1 else -1) [0..<length pattern]"

subsection \<open>The loop over the vertices\<close>

text \<open>
  The loop bodies of the two \<^verbatim>\<open>useFrame\<close> callbacks are the same text up to three places,
  which are parameters here: the number of position cells per index (\<open>stride\<close>: 6 in the
  filled layer, whose edge vertices alternate with centre vertices, 3 in the outline), the
  factor of the radius update (\<^verbatim>\<open>smoothingFactor\<close> in the filled layer,
  \<^verbatim>\<open>dynamicSmoothingFactor\<close> in the outline) and the last factor of \<^verbatim>\<open>randomness\<close>
  (absent in the filled layer, that is 1, and 0.75 in the outline).
\<close>

definition randomness :: "real \<Rightarrow> real \<Rightarrow> real \<Rightarrow> real" where
  "randomness jitter avg u = (u - 0.5) * (avg / 128) * jitter"

text \<open>
  The value that the frame assigns to \<^verbatim>\<open>currentRadii.current[i]\<close>, from the old value \<open>r\<close>
  of the cell. The cell belongs to a \<^verbatim>\<open>Float32Array\<close>, so the program stores the nearest
  32-bit float of this value; the model keeps the value itself. Inequalities with a margin
  far above that rounding are not affected; no statement below is about exact fixed points
  or limits of the stored radius, which the rounding decides.
\<close>

definition newRadius ::
  "'a Waveform_scheme \<Rightarrow> real \<Rightarrow> real \<Rightarrow> byte list \<Rightarrow> (nat \<Rightarrow> real) \<Rightarrow> nat \<Rightarrow> real \<Rightarrow> real" where
  "newRadius props factor jitter dataArray rnd i r =
     (let avg = averageAudio (audioScale props) dataArray
      in r + (pulsedRadius (baseRadius props) avg (pulseScale props)
              + audioEffect dataArray i (audioScale props) (audioAmplification avg)
              + randomness jitter avg (rnd i)
              - r) * factor)"

definition vertex ::
  "'a Waveform_scheme \<Rightarrow> nat \<Rightarrow> real \<Rightarrow> real \<Rightarrow> byte list \<Rightarrow> real \<Rightarrow> (nat \<Rightarrow> real) \<Rightarrow> real
     \<Rightarrow> real list \<Rightarrow> nat \<Rightarrow> real list \<times> real list \<Rightarrow> real list \<times> real list" where
  "vertex props stride factor jitter dataArray t rnd psm dirs i = (\<lambda>(radii, pos).
     (let a = angle i;
          und = undulation (undulationPattern props) psm dirs a t;
          radii' = radii[i := newRadius props factor jitter dataArray rnd i (radii ! i)];
          radius = radii' ! i + und
      in (radii', pos[i * stride := cos a * radius, i * stride + 1 := sin a * radius])))"

definition vertexLoop ::
  "'a Waveform_scheme \<Rightarrow> nat \<Rightarrow> real \<Rightarrow> real \<Rightarrow> byte list \<Rightarrow> real \<Rightarrow> (nat \<Rightarrow> real) \<Rightarrow> real
     \<Rightarrow> real list \<Rightarrow> real list \<times> real list \<Rightarrow> real list \<times> real list" where
  "vertexLoop props stride factor jitter dataArray t rnd psm dirs =
     fold (vertex props stride factor jitter dataArray t rnd psm dirs) [0..<bufferLength]"

subsection \<open>FilledWaveform\<close>

text \<open>The \<^verbatim>\<open>useMemo\<close> that fills the position array: edge vertex, then centre vertex.\<close>

definition FilledWaveform_positions :: "real \<Rightarrow> real list" where
  "FilledWaveform_positions base =
     fold (\<lambda>i posArray. posArray
             [i * 6 := cos (angle i) * base, i * 6 + 1 := sin (angle i) * base, i * 6 + 2 := 0,
              i * 6 + 3 := 0, i * 6 + 4 := 0, i * 6 + 5 := 0])
          [0..<bufferLength] (replicate (bufferLength * 2 * 3) 0)"

definition FilledWaveform_mount :: "FilledWaveformProps \<Rightarrow> (nat \<Rightarrow> real) \<Rightarrow> LayerState" where
  "FilledWaveform_mount props draws =
     \<lparr>previousSpeedMultiplier = 1,
      currentRadii = replicate bufferLength (baseRadius props),
      rotationDirections = initialDirections (undulationPattern props) draws,
      positions = FilledWaveform_positions (baseRadius props),
      currentOpacity = 0\<rparr>"

definition FilledWaveform_useFrame :: "FilledWaveformProps \<Rightarrow> Frame \<Rightarrow> LayerState \<Rightarrow> LayerState" where
  "FilledWaveform_useFrame props fr st =
     (case analyser fr of
        None \<Rightarrow> st
      | Some dataArray \<Rightarrow>
          if \<not> meshRef fr then st
          else
            (let avg = averageAudio (audioScale props) dataArray;
                 psm = previousSpeedMultiplier st
                       + (targetSpeedMultiplier avg (speedScale props) - previousSpeedMultiplier st)
                         * min 0.05 (smoothingFactor props);
                 rp = vertexLoop props 6 (smoothingFactor props) 1 dataArray (elapsedTime fr)
                        (random fr) psm (rotationDirections st) (currentRadii st, positions st)
             in st\<lparr>previousSpeedMultiplier := psm, currentRadii := fst rp, positions := snd rp,
                   currentOpacity := (if currentOpacity st = 0 then opacity props
                                      else currentOpacity st)\<rparr>))"

text \<open>The index attribute: one triangle per edge vertex.\<close>

definition triangleIndices :: "nat \<Rightarrow> 16 word list" where
  "triangleIndices n =
     fold (\<lambda>i indices. let nextI = (i + 1) mod n in indices
             [i * 3 := of_nat (i * 2), i * 3 + 1 := of_nat (nextI * 2), i * 3 + 2 := of_nat (i * 2 + 1)])
          [0..<n] (replicate (n * 3) 0)"

definition FilledWaveform_indices :: "16 word list" where
  "FilledWaveform_indices = triangleIndices bufferLength"

subsection \<open>OutlineWaveform\<close>

definition OutlineWaveform_positions :: "real \<Rightarrow> real list" where
  "OutlineWaveform_positions base =
     fold (\<lambda>i posArray. posArray
             [i * 3 := cos (angle i) * base, i * 3 + 1 := sin (angle i) * base, i * 3 + 2 := 0])
          [0..<bufferLength] (replicate (bufferLength * 3) 0)"

definition OutlineWaveform_mount :: "OutlineWaveformProps \<Rightarrow> (nat \<Rightarrow> real) \<Rightarrow> OutlineState" where
  "OutlineWaveform_mount props draws =
     \<lparr>previousSpeedMultiplier = 1,
      currentRadii = replicate bufferLength (baseRadius props),
      rotationDirections = initialDirections (undulationPattern props) draws,
      positions = OutlineWaveform_positions (baseRadius props),
      currentOpacity = 0,
      previousAudioLevel = 0\<rparr>"

definition dynamicSmoothingFactor :: "OutlineWaveformProps \<Rightarrow> real \<Rightarrow> real \<Rightarrow> real" where
  "dynamicSmoothingFactor props avg previous =
     (let isIncreasing = avg > previous
      in if isIncreasing then min 0.08 (smoothingFactor props * increaseResponseRate props)
         else min 0.04 (smoothingFactor props * decreaseResponseRate props))"

definition OutlineWaveform_useFrame :: "OutlineWaveformProps \<Rightarrow> Frame \<Rightarrow> OutlineState \<Rightarrow> OutlineState" where
  "OutlineWaveform_useFrame props fr st =
     (case analyser fr of
        None \<Rightarrow> st
      | Some dataArray \<Rightarrow>
          if \<not> meshRef fr then st
          else
            (let avg = averageAudio (audioScale props) dataArray;
                 dyn = dynamicSmoothingFactor props avg (previousAudioLevel st);
                 psm = previousSpeedMultiplier st
                       + (targetSpeedMultiplier avg 0.5 - previousSpeedMultiplier st) * dyn;
                 rp = vertexLoop props 3 dyn 0.75 dataArray (elapsedTime fr)
                        (random fr) psm (rotationDirections st) (currentRadii st, positions st)
             in st\<lparr>previousSpeedMultiplier := psm, currentRadii := fst rp, positions := snd rp,
                   currentOpacity := (if currentOpacity st = 0 then opacity props
                                      else currentOpacity st),
                   previousAudioLevel := avg\<rparr>))"

subsection \<open>The lifetime of an instance\<close>

text \<open>
  After the mount an instance sees rendered frames and, once, the 100 ms timer that sets
  the opacity.
\<close>

datatype Event = Rendered Frame | Timer

fun FilledWaveform_event :: "FilledWaveformProps \<Rightarrow> Event \<Rightarrow> LayerState \<Rightarrow> LayerState" where
  "FilledWaveform_event props (Rendered fr) st = FilledWaveform_useFrame props fr st"
| "FilledWaveform_event props Timer st = st\<lparr>currentOpacity := opacity props\<rparr>"

fun OutlineWaveform_event :: "OutlineWaveformProps \<Rightarrow> Event \<Rightarrow> OutlineState \<Rightarrow> OutlineState" where
  "OutlineWaveform_event props (Rendered fr) st = OutlineWaveform_useFrame props fr st"
| "OutlineWaveform_event props Timer st = st\<lparr>currentOpacity := opacity props\<rparr>"

definition FilledWaveform_run :: "FilledWaveformProps \<Rightarrow> Event list \<Rightarrow> LayerState \<Rightarrow> LayerState" where
  "FilledWaveform_run props evs = fold (FilledWaveform_event props) evs"

definition OutlineWaveform_run :: "OutlineWaveformProps \<Rightarrow> Event list \<Rightarrow> OutlineState \<Rightarrow> OutlineState" where
  "OutlineWaveform_run props evs = fold (OutlineWaveform_event props) evs"

subsection \<open>AudioWaveform: the six layers\<close>

datatype Layer = Filled FilledWaveformProps | Outline OutlineWaveformProps

text \<open>
  Each element passes some props; the others keep the component's defaults. The outline
  elements pass neither \<^verbatim>\<open>speedScale\<close> nor the response rates.
\<close>

definition AudioWaveform :: "real \<Rightarrow> real \<Rightarrow> real \<Rightarrow> real \<Rightarrow> real \<Rightarrow> Layer list" where
  "AudioWaveform size' amplitudeFactor audioFactor speedFactor pulseScale' =
     [Filled (FilledWaveform_defaults
        \<lparr>baseRadius := size' * 0.9, color := ''#60a5fa'', color2 := ''#3b82f6'', opacity := 0.3,
         smoothingFactor := 0.2, audioScale := audioFactor * 1.25,
         speedScale := speedFactor * 0.75, pulseScale := pulseScale',
         undulationPattern :=
           [\<lparr>frequency = 4, amplitude = amplitudeFactor * 0.3, speed = 0.5\<rparr>,
            \<lparr>frequency = 6, amplitude = amplitudeFactor * 0.2, speed = 0.3\<rparr>,
            \<lparr>frequency = 2, amplitude = amplitudeFactor * 0.3, speed = 0.4\<rparr>]\<rparr>),
      Outline (OutlineWaveform_defaults
        \<lparr>baseRadius := size' * 0.875, color := ''#fff'', opacity := 1,
         smoothingFactor := 0.15, audioScale := audioFactor * 2, pulseScale := pulseScale',
         undulationPattern :=
           [\<lparr>frequency = 3, amplitude = amplitudeFactor * 0.3, speed = 1.6\<rparr>,
            \<lparr>frequency = 5, amplitude = amplitudeFactor * 0.3, speed = 0.5\<rparr>,
            \<lparr>frequency = 2, amplitude = amplitudeFactor * 0.2, speed = 0.8\<rparr>]\<rparr>),
      Filled (FilledWaveform_defaults
        \<lparr>baseRadius := size' * 0.95, color := ''#f472b6'', color2 := ''#ec4899'', opacity := 0.2,
         smoothingFactor := 0.15, audioScale := audioFactor * 1.5,
         speedScale := speedFactor * 0.5, pulseScale := pulseScale',
         undulationPattern :=
           [\<lparr>frequency = 3, amplitude = amplitudeFactor * 0.3, speed = 0.4\<rparr>,
            \<lparr>frequency = 5, amplitude = amplitudeFactor * 0.2, speed = 0.3\<rparr>,
            \<lparr>frequency = 2, amplitude = amplitudeFactor * 0.4, speed = 0.5\<rparr>]\<rparr>),
      Outline (OutlineWaveform_defaults
        \<lparr>baseRadius := size' * 0.925, color := ''#fff'', opacity := 0.5,
         smoothingFactor := 0.1, audioScale := audioFactor * 2.5, pulseScale := pulseScale',
         undulationPattern :=
           [\<lparr>frequency = 2, amplitude = amplitudeFactor * 0.3, speed = 1.5\<rparr>,
            \<lparr>frequency = 4, amplitude = amplitudeFactor * 0.4, speed = 0.4\<rparr>,
            \<lparr>frequency = 3, amplitude = amplitudeFactor * 0.2, speed = 0.6\<rparr>]\<rparr>),
      Filled (FilledWaveform_defaults
        \<lparr>baseRadius := size' * 1.0, color := ''#c084fc'', color2 := ''#a855f7'', opacity := 0.2,
         smoothingFactor := 0.1, audioScale := audioFactor * 1.25,
         speedScale := speedFactor * 0.375, pulseScale := pulseScale',
         undulationPattern :=
           [\<lparr>frequency = 2, amplitude = amplitudeFactor * 0.2, speed = 0.3\<rparr>,
            \<lparr>frequency = 4, amplitude = amplitudeFactor * 0.15, speed = 0.2\<rparr>,
            \<lparr>frequency = 3, amplitude = amplitudeFactor * 0.25, speed = 0.4\<rparr>]\<rparr>),
      Outline (OutlineWaveform_defaults
        \<lparr>baseRadius := size' * 0.975, color := ''#fff'', opacity := 0.25,
         smoothingFactor := 0.08, audioScale := audioFactor * 1.75, pulseScale := pulseScale',
         undulationPattern :=
           [\<lparr>frequency = 2, amplitude = amplitudeFactor * 0.25, speed = 1.2\<rparr>,
            \<lparr>frequency = 3, amplitude = amplitudeFactor * 0.3, speed = 0.3\<rparr>,
            \<lparr>frequency = 4, amplitude = amplitudeFactor * 0.15, speed = 0.5\<rparr>]\<rparr>)]"

subsection \<open>Derived notions used in the statements\<close>

text \<open>
  The value of the local \<^verbatim>\<open>radius\<close> for index \<open>i\<close> in the frame at time \<open>t\<close> that left the
  state \<open>st\<close>: the stored radius plus the undulation, which reads the speed multiplier that
  the same frame stored.
\<close>

definition renderedRadius :: "'a Waveform_scheme \<Rightarrow> 'b LayerState_scheme \<Rightarrow> real \<Rightarrow> nat \<Rightarrow> real" where
  "renderedRadius props st t i =
     currentRadii st ! i
     + undulation (undulationPattern props) (previousSpeedMultiplier st) (rotationDirections st)
         (angle i) t"

text \<open>A frame in which the guard of the callback lets the update run.\<close>

definition audible :: "Frame \<Rightarrow> byte list \<Rightarrow> bool" where
  "audible fr dataArray \<longleftrightarrow> analyser fr = Some dataArray \<and> meshRef fr"

text \<open>An event that cannot move the geometry because no analyser exists.\<close>

fun unavailable :: "Event \<Rightarrow> bool" where
  "unavailable (Rendered fr) = (analyser fr = None)"
| "unavailable Timer = True"

text \<open>
  A frame in which the analyser delivers the same byte \<open>b\<close> in all 512 cells: 128 is
  silence, 255 the loudest sample.
\<close>

definition constantFrame :: "byte \<Rightarrow> real \<Rightarrow> (nat \<Rightarrow> real) \<Rightarrow> Frame" where
  "constantFrame b t rnd =
     \<lparr>analyser = Some (replicate bufferLength b), meshRef = True, elapsedTime = t, random = rnd\<rparr>"







section \<open>Loops that write strided cells\<close>

lemma fold_invariant:
  "P s \<Longrightarrow> (\<And>x s. x \<in> set xs \<Longrightarrow> P s \<Longrightarrow> P (f x s)) \<Longrightarrow> P (fold f xs s)"
  by (induction xs arbitrary: s) auto

lemma stride_index:
  fixes k i s c :: nat
  assumes "c < s"
  shows "k = i * s + c \<longleftrightarrow> k div s = i \<and> k mod s = c"
proof
  assume "k = i * s + c"
  then show "k div s = i \<and> k mod s = c"
    using assms by simp
next
  assume "k div s = i \<and> k mod s = c"
  then show "k = i * s + c"
    using div_mult_mod_eq [of k s] by auto
qed

lemma nth_update_stride:
  fixes k i s c :: nat
  assumes "c < s" "k < length a"
  shows "a[i * s + c := x] ! k = (if k div s = i \<and> k mod s = c then x else a ! k)"
proof (cases "k = i * s + c")
  case True
  then have "k div s = i \<and> k mod s = c"
    using stride_index [OF assms(1), of k i] by blast
  then show ?thesis using True assms(2) by simp
next
  case False
  then have "\<not> (k div s = i \<and> k mod s = c)"
    using stride_index [OF assms(1), of k i] by blast
  then show ?thesis using False by auto
qed

lemmas nth_update_cell =
  nth_update_stride [of 0 3, simplified] nth_update_stride [of 1 3, simplified]
  nth_update_stride [of 2 3, simplified]
  nth_update_stride [of 0 6, simplified] nth_update_stride [of 1 6, simplified]
  nth_update_stride [of 2 6, simplified] nth_update_stride [of 3 6, simplified]
  nth_update_stride [of 4 6, simplified] nth_update_stride [of 5 6, simplified]

lemma length_fold_strided:
  assumes "\<And>i a. length (w i a) = length a"
  shows "length (fold w xs a) = length a"
  by (induction xs arbitrary: a) (simp_all add: assms)

lemma fold_strided:
  assumes len: "\<And>i a. length (w i a) = length a"
    and wr: "\<And>i a k. k < length a \<Longrightarrow>
               w i a ! k = (if k div s = i \<and> k mod s \<in> M then g i (k mod s) else a ! k)"
    and k: "k < length a"
  shows "fold w [0..<m] a ! k =
           (if k div s < m \<and> k mod s \<in> M then g (k div s) (k mod s) else a ! k)"
proof (induction m)
  case 0
  then show ?case by simp
next
  case (Suc m)
  have "length (fold w [0..<m] a) = length a"
    by (rule length_fold_strided) (rule len)
  then show ?case
    using Suc.IH k by (auto simp add: wr less_Suc_eq)
qed

section \<open>The loop over the vertices\<close>

lemma fst_vertex:
  "fst (vertex props stride factor jitter dataArray t rnd psm dirs i rp) =
     (fst rp)[i := newRadius props factor jitter dataArray rnd i (fst rp ! i)]"
  by (simp add: vertex_def Let_def split: prod.splits)

lemma snd_vertex:
  "snd (vertex props stride factor jitter dataArray t rnd psm dirs i rp) =
     (snd rp)[i * stride := cos (angle i) *
                 ((fst rp)[i := newRadius props factor jitter dataArray rnd i (fst rp ! i)] ! i
                  + undulation (undulationPattern props) psm dirs (angle i) t),
              i * stride + 1 := sin (angle i) *
                 ((fst rp)[i := newRadius props factor jitter dataArray rnd i (fst rp ! i)] ! i
                  + undulation (undulationPattern props) psm dirs (angle i) t)]"
  by (simp add: vertex_def Let_def split: prod.splits)

lemma length_fst_vertex_fold:
  "length (fst (fold (vertex props stride factor jitter dataArray t rnd psm dirs) xs rp))
     = length (fst rp)"
  by (induction xs arbitrary: rp) (simp_all add: fst_vertex)

lemma length_snd_vertex_fold:
  "length (snd (fold (vertex props stride factor jitter dataArray t rnd psm dirs) xs rp))
     = length (snd rp)"
  by (induction xs arbitrary: rp) (simp_all add: snd_vertex)

lemma radii_vertex_fold:
  "j < length (fst rp) \<Longrightarrow>
   fst (fold (vertex props stride factor jitter dataArray t rnd psm dirs) [0..<n] rp) ! j =
     (if j < n then newRadius props factor jitter dataArray rnd j (fst rp ! j) else fst rp ! j)"
proof (induction n arbitrary: j)
  case 0
  then show ?case by simp
next
  case (Suc n)
  show ?case
  proof (cases "n < length (fst rp)")
    case True
    then show ?thesis
      using Suc.IH [of n] Suc.IH [of j] Suc.prems
      by (simp add: fst_vertex length_fst_vertex_fold nth_list_update less_Suc_eq)
  next
    case False
    then show ?thesis
      using Suc.IH [of j] Suc.prems
      by (simp add: fst_vertex length_fst_vertex_fold)
  qed
qed

lemma positions_vertex_fold:
  assumes "2 \<le> stride" "n \<le> length (fst rp)" "k < length (snd rp)"
  shows "snd (fold (vertex props stride factor jitter dataArray t rnd psm dirs) [0..<n] rp) ! k =
     (if k div stride < n \<and> k mod stride = 0 then
        cos (angle (k div stride)) *
          (newRadius props factor jitter dataArray rnd (k div stride) (fst rp ! (k div stride))
           + undulation (undulationPattern props) psm dirs (angle (k div stride)) t)
      else if k div stride < n \<and> k mod stride = 1 then
        sin (angle (k div stride)) *
          (newRadius props factor jitter dataArray rnd (k div stride) (fst rp ! (k div stride))
           + undulation (undulationPattern props) psm dirs (angle (k div stride)) t)
      else snd rp ! k)"
  using assms(2)
proof (induction n)
  case 0
  then show ?case by simp
next
  case (Suc n)
  have n: "n < length (fst rp)" using Suc.prems by simp
  have a: "k = n * stride \<longleftrightarrow> k div stride = n \<and> k mod stride = 0"
    using stride_index [of 0 stride k n] assms(1) by simp
  have b: "k = n * stride + 1 \<longleftrightarrow> k div stride = n \<and> k mod stride = 1"
    using stride_index [of 1 stride k n] assms(1) by simp
  show ?case
    using Suc.IH n assms(3) a b
    by (auto simp add: snd_vertex fst_vertex length_fst_vertex_fold length_snd_vertex_fold
        nth_list_update radii_vertex_fold less_Suc_eq)
qed

lemma vertex_keeps_cell:
  assumes "k mod stride \<noteq> 0" "k mod stride \<noteq> 1"
  shows "snd (vertex props stride factor jitter dataArray t rnd psm dirs i rp) ! k = snd rp ! k"
proof -
  have "k \<noteq> i * stride" using assms(1) by auto
  moreover have "k \<noteq> i * stride + 1" using assms by (auto simp: mod_Suc split: if_splits)
  ultimately show ?thesis by (simp add: snd_vertex)
qed

lemma vertexLoop_keeps_cell:
  assumes "k mod stride \<noteq> 0" "k mod stride \<noteq> 1"
  shows "snd (vertexLoop props stride factor jitter dataArray t rnd psm dirs rp) ! k = snd rp ! k"
  unfolding vertexLoop_def
  by (rule fold_invariant [where P = "\<lambda>s. snd s ! k = snd rp ! k"])
     (simp_all add: vertex_keeps_cell [OF assms])

lemma length_vertexLoop:
  "length (fst (vertexLoop props stride factor jitter dataArray t rnd psm dirs rp)) = length (fst rp)"
  "length (snd (vertexLoop props stride factor jitter dataArray t rnd psm dirs rp)) = length (snd rp)"
  by (simp_all add: vertexLoop_def length_fst_vertex_fold length_snd_vertex_fold)


lemma vertexLoop_position:
  assumes "2 \<le> stride" "bufferLength \<le> length (fst rp)" "i < bufferLength"
    "i * stride + 1 < length (snd rp)"
  shows "snd (vertexLoop props stride factor jitter dataArray t rnd psm dirs rp) ! (i * stride) =
           cos (angle i) *
             (fst (vertexLoop props stride factor jitter dataArray t rnd psm dirs rp) ! i
              + undulation (undulationPattern props) psm dirs (angle i) t)"
    and "snd (vertexLoop props stride factor jitter dataArray t rnd psm dirs rp) ! Suc (i * stride) =
           sin (angle i) *
             (fst (vertexLoop props stride factor jitter dataArray t rnd psm dirs rp) ! i
              + undulation (undulationPattern props) psm dirs (angle i) t)"
proof -
  have i: "i < length (fst rp)" using assms by simp
  have a: "(i * stride) div stride = i \<and> (i * stride) mod stride = 0"
    using stride_index [of 0 stride "i * stride" i] assms(1) by simp
  have b: "Suc (i * stride) div stride = i \<and> Suc (i * stride) mod stride = 1"
    using stride_index [of 1 stride "i * stride + 1" i] assms(1) by simp
  have k: "i * stride < length (snd rp)" "Suc (i * stride) < length (snd rp)"
    using assms(4) by simp_all
  show "snd (vertexLoop props stride factor jitter dataArray t rnd psm dirs rp) ! (i * stride) =
           cos (angle i) *
             (fst (vertexLoop props stride factor jitter dataArray t rnd psm dirs rp) ! i
              + undulation (undulationPattern props) psm dirs (angle i) t)"
    unfolding vertexLoop_def
    by (simp add: positions_vertex_fold [OF assms(1) assms(2) k(1)] radii_vertex_fold [OF i]
        a assms(3))
  show "snd (vertexLoop props stride factor jitter dataArray t rnd psm dirs rp) ! Suc (i * stride) =
           sin (angle i) *
             (fst (vertexLoop props stride factor jitter dataArray t rnd psm dirs rp) ! i
              + undulation (undulationPattern props) psm dirs (angle i) t)"
    unfolding vertexLoop_def
    by (simp add: positions_vertex_fold [OF assms(1) assms(2) k(2)] radii_vertex_fold [OF i]
        b assms(3))
qed

section \<open>One frame\<close>

lemma FilledWaveform_useFrame_audible:
  assumes "audible fr dataArray"
  shows "FilledWaveform_useFrame props fr st =
     (let avg = averageAudio (audioScale props) dataArray;
          psm = previousSpeedMultiplier st
                + (targetSpeedMultiplier avg (speedScale props) - previousSpeedMultiplier st)
                  * min 0.05 (smoothingFactor props);
          rp = vertexLoop props 6 (smoothingFactor props) 1 dataArray (elapsedTime fr)
                 (random fr) psm (rotationDirections st) (currentRadii st, positions st)
      in st\<lparr>previousSpeedMultiplier := psm, currentRadii := fst rp, positions := snd rp,
            currentOpacity := (if currentOpacity st = 0 then opacity props
                               else currentOpacity st)\<rparr>)"
  using assms by (simp add: FilledWaveform_useFrame_def audible_def)

lemma OutlineWaveform_useFrame_audible:
  assumes "audible fr dataArray"
  shows "OutlineWaveform_useFrame props fr st =
     (let avg = averageAudio (audioScale props) dataArray;
          dyn = dynamicSmoothingFactor props avg (previousAudioLevel st);
          psm = previousSpeedMultiplier st
                + (targetSpeedMultiplier avg 0.5 - previousSpeedMultiplier st) * dyn;
          rp = vertexLoop props 3 dyn 0.75 dataArray (elapsedTime fr)
                 (random fr) psm (rotationDirections st) (currentRadii st, positions st)
      in st\<lparr>previousSpeedMultiplier := psm, currentRadii := fst rp, positions := snd rp,
            currentOpacity := (if currentOpacity st = 0 then opacity props
                               else currentOpacity st),
            previousAudioLevel := avg\<rparr>)"
  using assms by (simp add: OutlineWaveform_useFrame_def audible_def)

lemma useFrame_unavailable:
  "analyser fr = None \<Longrightarrow> FilledWaveform_useFrame fp fr fs = fs"
  "analyser fr = None \<Longrightarrow> OutlineWaveform_useFrame op fr os = os"
  by (simp_all add: FilledWaveform_useFrame_def OutlineWaveform_useFrame_def)

lemma length_radii_useFrame:
  "length (currentRadii (FilledWaveform_useFrame fp fr fs)) = length (currentRadii fs)"
  "length (currentRadii (OutlineWaveform_useFrame op fr os)) = length (currentRadii os)"
  by (simp_all add: FilledWaveform_useFrame_def OutlineWaveform_useFrame_def Let_def
      length_vertexLoop split: option.splits)

lemma length_positions_useFrame:
  "length (positions (FilledWaveform_useFrame fp fr fs)) = length (positions fs)"
  "length (positions (OutlineWaveform_useFrame op fr os)) = length (positions os)"
  by (simp_all add: FilledWaveform_useFrame_def OutlineWaveform_useFrame_def Let_def
      length_vertexLoop split: option.splits)



lemma FilledWaveform_frame_position:
  assumes "audible fr dataArray" "i < bufferLength"
    "length (currentRadii st) = bufferLength" "length (positions st) = bufferLength * 2 * 3"
  shows "positions (FilledWaveform_useFrame props fr st) ! (i * 6) =
           cos (angle i) * renderedRadius props (FilledWaveform_useFrame props fr st) (elapsedTime fr) i"
    and "positions (FilledWaveform_useFrame props fr st) ! (i * 6 + 1) =
           sin (angle i) * renderedRadius props (FilledWaveform_useFrame props fr st) (elapsedTime fr) i"
  using assms
  by (simp_all add: FilledWaveform_useFrame_audible Let_def renderedRadius_def vertexLoop_position)

lemma OutlineWaveform_frame_position:
  assumes "audible fr dataArray" "i < bufferLength"
    "length (currentRadii st) = bufferLength" "length (positions st) = bufferLength * 3"
  shows "positions (OutlineWaveform_useFrame props fr st) ! (i * 3) =
           cos (angle i) * renderedRadius props (OutlineWaveform_useFrame props fr st) (elapsedTime fr) i"
    and "positions (OutlineWaveform_useFrame props fr st) ! (i * 3 + 1) =
           sin (angle i) * renderedRadius props (OutlineWaveform_useFrame props fr st) (elapsedTime fr) i"
  using assms
  by (simp_all add: OutlineWaveform_useFrame_audible Let_def renderedRadius_def vertexLoop_position)

section \<open>Mounting\<close>

lemma length_initial_positions:
  "length (FilledWaveform_positions base) = bufferLength * 2 * 3"
  "length (OutlineWaveform_positions base) = bufferLength * 3"
  unfolding FilledWaveform_positions_def OutlineWaveform_positions_def
  by (subst length_fold_strided; simp)+

lemma FilledWaveform_positions_nth:
  assumes "k < bufferLength * 2 * 3"
  shows "FilledWaveform_positions base ! k =
     (if k mod 6 = 0 then cos (angle (k div 6)) * base
      else if k mod 6 = 1 then sin (angle (k div 6)) * base else 0)"
proof -
  let ?w = "\<lambda>i posArray. posArray
             [i * 6 := cos (angle i) * base, i * 6 + 1 := sin (angle i) * base, i * 6 + 2 := 0,
              i * 6 + 3 := 0, i * 6 + 4 := 0, i * 6 + 5 := (0::real)]"
  let ?g = "\<lambda>i c. if c = 0 then cos (angle i) * base
      else if c = (1::nat) then sin (angle i) * base else (0::real)"
  have "fold ?w [0..<bufferLength] (replicate (bufferLength * 2 * 3) 0) ! k =
      (if k div 6 < bufferLength \<and> k mod 6 \<in> UNIV then ?g (k div 6) (k mod 6)
       else replicate (bufferLength * 2 * 3) 0 ! k)"
  proof (rule fold_strided)
    show "\<And>i a. length (?w i a) = length a" by simp
    show "k < length (replicate (bufferLength * 2 * 3) (0 :: real))" using assms by simp
    fix i k and a :: "real list"
    assume "k < length a"
    moreover have "k mod 6 = 0 \<or> k mod 6 = 1 \<or> k mod 6 = 2 \<or> k mod 6 = 3 \<or> k mod 6 = 4
        \<or> k mod 6 = 5"
      using mod_less_divisor [of 6 k] by linarith
    ultimately show "?w i a ! k =
        (if k div 6 = i \<and> k mod 6 \<in> UNIV then ?g i (k mod 6) else a ! k)"
      by (auto simp add: nth_update_cell)
  qed
  then show ?thesis using assms by (simp add: FilledWaveform_positions_def)
qed

lemma OutlineWaveform_positions_nth:
  assumes "k < bufferLength * 3"
  shows "OutlineWaveform_positions base ! k =
     (if k mod 3 = 0 then cos (angle (k div 3)) * base
      else if k mod 3 = 1 then sin (angle (k div 3)) * base else 0)"
proof -
  let ?w = "\<lambda>i posArray. posArray
             [i * 3 := cos (angle i) * base, i * 3 + 1 := sin (angle i) * base,
              i * 3 + 2 := (0::real)]"
  let ?g = "\<lambda>i c. if c = 0 then cos (angle i) * base
      else if c = (1::nat) then sin (angle i) * base else (0::real)"
  have "fold ?w [0..<bufferLength] (replicate (bufferLength * 3) 0) ! k =
      (if k div 3 < bufferLength \<and> k mod 3 \<in> UNIV then ?g (k div 3) (k mod 3)
       else replicate (bufferLength * 3) 0 ! k)"
  proof (rule fold_strided)
    show "\<And>i a. length (?w i a) = length a" by simp
    show "k < length (replicate (bufferLength * 3) (0 :: real))" using assms by simp
    fix i k and a :: "real list"
    assume "k < length a"
    moreover have "k mod 3 = 0 \<or> k mod 3 = 1 \<or> k mod 3 = 2"
      using mod_less_divisor [of 3 k] by linarith
    ultimately show "?w i a ! k =
        (if k div 3 = i \<and> k mod 3 \<in> UNIV then ?g i (k mod 3) else a ! k)"
      by (auto simp add: nth_update_cell)
  qed
  then show ?thesis using assms by (simp add: OutlineWaveform_positions_def)
qed

lemma cell_index:
  fixes i :: nat
  shows "(i * 6) mod 6 = 0" "(i * 6) div 6 = i"
    "(i * 6 + 1) mod 6 = 1" "(i * 6 + 1) div 6 = i"
    "(i * 6 + 2) mod 6 = 2" "(i * 6 + 2) div 6 = i"
    "(i * 6 + 3) mod 6 = 3" "(i * 6 + 3) div 6 = i"
    "(i * 6 + 4) mod 6 = 4" "(i * 6 + 4) div 6 = i"
    "(i * 6 + 5) mod 6 = 5" "(i * 6 + 5) div 6 = i"
    "(i * 3) mod 3 = 0" "(i * 3) div 3 = i"
    "(i * 3 + 1) mod 3 = 1" "(i * 3 + 1) div 3 = i"
    "(i * 3 + 2) mod 3 = 2" "(i * 3 + 2) div 3 = i"
  using stride_index [of 1 6 "i * 6 + 1" i] stride_index [of 2 6 "i * 6 + 2" i]
    stride_index [of 3 6 "i * 6 + 3" i] stride_index [of 4 6 "i * 6 + 4" i]
    stride_index [of 5 6 "i * 6 + 5" i]
    stride_index [of 1 3 "i * 3 + 1" i] stride_index [of 2 3 "i * 3 + 2" i]
  by simp_all

lemma length_mount:
  "length (currentRadii (FilledWaveform_mount fp d)) = bufferLength"
  "length (positions (FilledWaveform_mount fp d)) = bufferLength * 2 * 3"
  "length (currentRadii (OutlineWaveform_mount op d)) = bufferLength"
  "length (positions (OutlineWaveform_mount op d)) = bufferLength * 3"
  by (simp_all add: FilledWaveform_mount_def OutlineWaveform_mount_def length_initial_positions)

section \<open>Lifetime invariants\<close>

lemma length_event:
  "length (currentRadii (FilledWaveform_event fp ev fs)) = length (currentRadii fs)"
  "length (positions (FilledWaveform_event fp ev fs)) = length (positions fs)"
  "length (currentRadii (OutlineWaveform_event op ev os)) = length (currentRadii os)"
  "length (positions (OutlineWaveform_event op ev os)) = length (positions os)"
  by (cases ev; simp add: length_radii_useFrame length_positions_useFrame)+

lemma length_run:
  "length (currentRadii (FilledWaveform_run fp evs fs)) = length (currentRadii fs)"
  "length (positions (FilledWaveform_run fp evs fs)) = length (positions fs)"
  "length (currentRadii (OutlineWaveform_run op evs os)) = length (currentRadii os)"
  "length (positions (OutlineWaveform_run op evs os)) = length (positions os)"
  unfolding FilledWaveform_run_def OutlineWaveform_run_def
  by (induction evs arbitrary: fs os) (simp_all add: length_event)

text \<open>
  Claim C8. The per-vertex radius array of a filled and of an outline instance has 512
  entries when the instance is created, and after any sequence of rendered frames (with or
  without an analyser) and timer events it still has 512 entries.
\<close>

theorem radius_state_length:
  "length (currentRadii (FilledWaveform_mount fp d)) = 512 \<and>
   length (currentRadii (FilledWaveform_run fp evs (FilledWaveform_mount fp d))) = 512 \<and>
   length (currentRadii (OutlineWaveform_mount op d')) = 512 \<and>
   length (currentRadii (OutlineWaveform_run op evs' (OutlineWaveform_mount op d'))) = 512"
  by (simp add: length_run length_mount bufferLength_def)

section \<open>The triangulation\<close>

lemma length_triangleIndices: "length (triangleIndices n) = n * 3"
  unfolding triangleIndices_def by (subst length_fold_strided) (simp_all add: Let_def)

lemma triangleIndices_nth:
  assumes "k < n * 3"
  shows "triangleIndices n ! k =
     (if k mod 3 = 0 then of_nat (k div 3 * 2)
      else if k mod 3 = 1 then of_nat (((k div 3 + 1) mod n) * 2)
      else of_nat (k div 3 * 2 + 1))"
proof -
  let ?w = "\<lambda>i indices. let nextI = (i + 1) mod n in indices
             [i * 3 := of_nat (i * 2), i * 3 + 1 := of_nat (nextI * 2),
              i * 3 + 2 := of_nat (i * 2 + 1 :: nat) :: 16 word]"
  let ?g = "\<lambda>i c. if c = 0 then of_nat (i * 2)
      else if c = 1 then of_nat (((i + 1) mod n) * 2)
      else of_nat (i * 2 + 1) :: 16 word"
  have "fold ?w [0..<n] (replicate (n * 3) 0) ! k =
      (if k div 3 < n \<and> k mod 3 \<in> UNIV then ?g (k div 3) (k mod 3)
       else replicate (n * 3) 0 ! k)"
  proof (rule fold_strided)
    show "\<And>i a. length (?w i a) = length a" by (simp add: Let_def)
    show "k < length (replicate (n * 3) (0 :: 16 word))" using assms by simp
    fix i k and a :: "16 word list"
    assume "k < length a"
    moreover have "k = i * 3 \<longleftrightarrow> k div 3 = i \<and> k mod 3 = 0"
      using stride_index [of 0 3 k i] by simp
    moreover have "k = i * 3 + 1 \<longleftrightarrow> k div 3 = i \<and> k mod 3 = 1"
      using stride_index [of 1 3 k i] by simp
    moreover have "k = i * 3 + 2 \<longleftrightarrow> k div 3 = i \<and> k mod 3 = 2"
      using stride_index [of 2 3 k i] by simp
    moreover have "k mod 3 = 0 \<or> k mod 3 = 1 \<or> k mod 3 = 2"
      using mod_less_divisor [of 3 k] by linarith
    ultimately show "?w i a ! k =
        (if k div 3 = i \<and> k mod 3 \<in> UNIV then ?g i (k mod 3) else a ! k)"
      by (auto simp add: Let_def nth_list_update)
  qed
  moreover have "k div 3 < n" using assms by simp
  ultimately show ?thesis by (simp add: triangleIndices_def)
qed

lemma unat_index: "m < 65536 \<Longrightarrow> unat (of_nat m :: 16 word) = m"
  by (simp add: unat_of_nat)

text \<open>
  Claim C5. The index buffer of the filled layer (buffer length 512) has 3 * 512 entries,
  every entry is a vertex slot below 2 * 512, and the entries 3i, 3i+1, 3i+2 are the edge
  vertex 2i, the next edge vertex 2((i+1) mod 512) and the centre vertex 2i+1, for every
  i below 512.
\<close>

theorem triangulation_indices:
  "length FilledWaveform_indices = 3 * 512 \<and>
   (\<forall>k < length FilledWaveform_indices. unat (FilledWaveform_indices ! k) < 2 * 512) \<and>
   (\<forall>i < 512.
      unat (FilledWaveform_indices ! (3 * i)) = 2 * i \<and>
      unat (FilledWaveform_indices ! (3 * i + 1)) = 2 * ((i + 1) mod 512) \<and>
      unat (FilledWaveform_indices ! (3 * i + 2)) = 2 * i + 1)"
proof (intro conjI allI impI)
  show "length FilledWaveform_indices = 3 * 512"
    by (simp add: FilledWaveform_indices_def length_triangleIndices bufferLength_def)
next
  fix k assume "k < length FilledWaveform_indices"
  then have k: "k < 512 * 3"
    by (simp add: FilledWaveform_indices_def length_triangleIndices bufferLength_def)
  then have d: "k div 3 < 512" by simp
  have m: "(k div 3 + 1) mod 512 < 512" by simp
  show "unat (FilledWaveform_indices ! k) < 2 * 512"
    using k d m
    by (simp add: FilledWaveform_indices_def bufferLength_def triangleIndices_nth unat_index
        del: of_nat_mult of_nat_add of_nat_Suc)
next
  fix i :: nat assume i: "i < 512"
  have m: "(i + 1) mod 512 < 512" by simp
  have a: "(3 * i) mod 3 = 0" "(3 * i) div 3 = i" by simp_all
  have b: "(3 * i + 1) div 3 = i \<and> (3 * i + 1) mod 3 = 1"
    using stride_index [of 1 3 "3 * i + 1" i] by simp
  have c: "(3 * i + 2) div 3 = i \<and> (3 * i + 2) mod 3 = 2"
    using stride_index [of 2 3 "3 * i + 2" i] by simp
  show "unat (FilledWaveform_indices ! (3 * i)) = 2 * i"
    using i a by (simp add: FilledWaveform_indices_def bufferLength_def triangleIndices_nth
        unat_index del: of_nat_mult of_nat_add of_nat_Suc)
  show "unat (FilledWaveform_indices ! (3 * i + 1)) = 2 * ((i + 1) mod 512)"
    using i m b by (simp add: FilledWaveform_indices_def bufferLength_def triangleIndices_nth
        unat_index del: of_nat_mult of_nat_add of_nat_Suc)
  show "unat (FilledWaveform_indices ! (3 * i + 2)) = 2 * i + 1"
    using i c by (simp add: FilledWaveform_indices_def bufferLength_def triangleIndices_nth
        unat_index del: of_nat_mult of_nat_add of_nat_Suc)
qed

theorem triangulation_indices_witness:
  "(511::nat) < 512 \<and> 1535 < length FilledWaveform_indices \<and>
   unat (FilledWaveform_indices ! 1535) < 2 * 512 \<and>
   unat (FilledWaveform_indices ! (3 * 511)) = 2 * 511 \<and>
   unat (FilledWaveform_indices ! (3 * 511 + 1)) = 2 * ((511 + 1) mod 512) \<and>
   unat (FilledWaveform_indices ! (3 * 511 + 2)) = 2 * 511 + 1"
  using triangulation_indices [THEN conjunct1]
    triangulation_indices [THEN conjunct2, THEN conjunct1, rule_format, of 1535]
    triangulation_indices [THEN conjunct2, THEN conjunct2, rule_format, of 511]
  by simp

section \<open>Frames without an analyser\<close>

lemma event_unavailable_filled:
  assumes "unavailable ev"
  shows "positions (FilledWaveform_event fp ev fs) = positions fs"
    "currentRadii (FilledWaveform_event fp ev fs) = currentRadii fs"
    "previousSpeedMultiplier (FilledWaveform_event fp ev fs) = previousSpeedMultiplier fs"
  using assms by (cases ev; simp add: useFrame_unavailable)+

lemma event_unavailable_outline:
  assumes "unavailable ev"
  shows "positions (OutlineWaveform_event op ev os) = positions os"
    "currentRadii (OutlineWaveform_event op ev os) = currentRadii os"
    "previousSpeedMultiplier (OutlineWaveform_event op ev os) = previousSpeedMultiplier os"
  using assms by (cases ev; simp add: useFrame_unavailable)+

lemma run_unavailable_filled:
  assumes "\<forall>ev \<in> set evs. unavailable ev"
  shows "positions (FilledWaveform_run fp evs fs) = positions fs \<and>
         currentRadii (FilledWaveform_run fp evs fs) = currentRadii fs \<and>
         previousSpeedMultiplier (FilledWaveform_run fp evs fs) = previousSpeedMultiplier fs"
  using assms unfolding FilledWaveform_run_def
  by (induction evs arbitrary: fs) (simp_all add: event_unavailable_filled)

lemma run_unavailable_outline:
  assumes "\<forall>ev \<in> set evs. unavailable ev"
  shows "positions (OutlineWaveform_run op evs os) = positions os \<and>
         currentRadii (OutlineWaveform_run op evs os) = currentRadii os \<and>
         previousSpeedMultiplier (OutlineWaveform_run op evs os) = previousSpeedMultiplier os"
  using assms unfolding OutlineWaveform_run_def
  by (induction evs arbitrary: os) (simp_all add: event_unavailable_outline)

lemma initial_circle:
  assumes "i < bufferLength"
  shows "FilledWaveform_positions base ! (i * 6) = cos (angle i) * base"
    "FilledWaveform_positions base ! (i * 6 + 1) = sin (angle i) * base"
    "FilledWaveform_positions base ! (i * 6 + 2) = 0"
    "FilledWaveform_positions base ! (i * 6 + 3) = 0"
    "FilledWaveform_positions base ! (i * 6 + 4) = 0"
    "FilledWaveform_positions base ! (i * 6 + 5) = 0"
    "OutlineWaveform_positions base ! (i * 3) = cos (angle i) * base"
    "OutlineWaveform_positions base ! (i * 3 + 1) = sin (angle i) * base"
    "OutlineWaveform_positions base ! (i * 3 + 2) = 0"
proof -
  have a: "i * 6 < bufferLength * 2 * 3" "i * 6 + 1 < bufferLength * 2 * 3"
    "i * 6 + 2 < bufferLength * 2 * 3" "i * 6 + 3 < bufferLength * 2 * 3"
    "i * 6 + 4 < bufferLength * 2 * 3" "i * 6 + 5 < bufferLength * 2 * 3"
    "i * 3 < bufferLength * 3" "i * 3 + 1 < bufferLength * 3" "i * 3 + 2 < bufferLength * 3"
    using assms by simp_all
  show "FilledWaveform_positions base ! (i * 6) = cos (angle i) * base"
    by (simp only: FilledWaveform_positions_nth [OF a(1)] cell_index) simp
  show "FilledWaveform_positions base ! (i * 6 + 1) = sin (angle i) * base"
    by (simp only: FilledWaveform_positions_nth [OF a(2)] cell_index) simp
  show "FilledWaveform_positions base ! (i * 6 + 2) = 0"
    by (simp only: FilledWaveform_positions_nth [OF a(3)] cell_index) simp
  show "FilledWaveform_positions base ! (i * 6 + 3) = 0"
    by (simp only: FilledWaveform_positions_nth [OF a(4)] cell_index) simp
  show "FilledWaveform_positions base ! (i * 6 + 4) = 0"
    by (simp only: FilledWaveform_positions_nth [OF a(5)] cell_index) simp
  show "FilledWaveform_positions base ! (i * 6 + 5) = 0"
    by (simp only: FilledWaveform_positions_nth [OF a(6)] cell_index) simp
  show "OutlineWaveform_positions base ! (i * 3) = cos (angle i) * base"
    by (simp only: OutlineWaveform_positions_nth [OF a(7)] cell_index) simp
  show "OutlineWaveform_positions base ! (i * 3 + 1) = sin (angle i) * base"
    by (simp only: OutlineWaveform_positions_nth [OF a(8)] cell_index) simp
  show "OutlineWaveform_positions base ! (i * 3 + 2) = 0"
    by (simp only: OutlineWaveform_positions_nth [OF a(9)] cell_index) simp
qed

text \<open>
  Claim C4. While the analyser reference is null the callback of either layer returns the
  state unchanged; so after any sequence of such frames (and timer events) from the mount the
  edge vertex of every index i is still at (cos(angle i), sin(angle i)) * baseRadius with
  z = 0, the position array is the mounted one (no undulation is applied), the radius
  array is still constantly baseRadius and the speed multiplier is still 1, whatever the
  elapsed times.
\<close>

theorem no_analyser_static:
  assumes "analyser fr = None" "\<forall>ev \<in> set evs. unavailable ev" "i < bufferLength"
  shows "FilledWaveform_useFrame fp fr fs = fs \<and>
         OutlineWaveform_useFrame op fr os = os \<and>
         (let F = FilledWaveform_run fp evs (FilledWaveform_mount fp d);
              G = OutlineWaveform_run op evs (OutlineWaveform_mount op d')
          in positions F ! (i * 6) = cos (angle i) * baseRadius fp \<and>
             positions F ! (i * 6 + 1) = sin (angle i) * baseRadius fp \<and>
             positions F ! (i * 6 + 2) = 0 \<and>
             positions F = positions (FilledWaveform_mount fp d) \<and>
             currentRadii F = replicate bufferLength (baseRadius fp) \<and>
             previousSpeedMultiplier F = 1 \<and>
             positions G ! (i * 3) = cos (angle i) * baseRadius op \<and>
             positions G ! (i * 3 + 1) = sin (angle i) * baseRadius op \<and>
             positions G ! (i * 3 + 2) = 0 \<and>
             positions G = positions (OutlineWaveform_mount op d') \<and>
             currentRadii G = replicate bufferLength (baseRadius op) \<and>
             previousSpeedMultiplier G = 1)"
proof -
  have f: "positions (FilledWaveform_mount fp d) = FilledWaveform_positions (baseRadius fp)"
    "currentRadii (FilledWaveform_mount fp d) = replicate bufferLength (baseRadius fp)"
    "previousSpeedMultiplier (FilledWaveform_mount fp d) = 1"
    by (simp_all add: FilledWaveform_mount_def)
  have o: "positions (OutlineWaveform_mount op d') = OutlineWaveform_positions (baseRadius op)"
    "currentRadii (OutlineWaveform_mount op d') = replicate bufferLength (baseRadius op)"
    "previousSpeedMultiplier (OutlineWaveform_mount op d') = 1"
    by (simp_all add: OutlineWaveform_mount_def)
  show ?thesis
    unfolding Let_def
    by (simp only: useFrame_unavailable [OF assms(1)] run_unavailable_filled [OF assms(2)]
        run_unavailable_outline [OF assms(2)] f o initial_circle [OF assms(3)] simp_thms)
qed

theorem no_analyser_static_witness:
  "analyser \<lparr>analyser = None, meshRef = True, elapsedTime = 7, random = (\<lambda>_. 0)\<rparr> = None \<and>
   unavailable Timer \<and>
   unavailable (Rendered \<lparr>analyser = None, meshRef = True, elapsedTime = 7, random = (\<lambda>_. 0)\<rparr>) \<and>
   (5::nat) < bufferLength \<and>
   (FilledWaveform_useFrame FilledWaveform_defaults
      \<lparr>analyser = None, meshRef = True, elapsedTime = 7, random = (\<lambda>_. 0)\<rparr>
      (FilledWaveform_mount FilledWaveform_defaults (\<lambda>_. 0))
    = FilledWaveform_mount FilledWaveform_defaults (\<lambda>_. 0) \<and>
    OutlineWaveform_useFrame OutlineWaveform_defaults
      \<lparr>analyser = None, meshRef = True, elapsedTime = 7, random = (\<lambda>_. 0)\<rparr>
      (OutlineWaveform_mount OutlineWaveform_defaults (\<lambda>_. 0))
    = OutlineWaveform_mount OutlineWaveform_defaults (\<lambda>_. 0) \<and>
    (let F = FilledWaveform_run FilledWaveform_defaults
               [Timer, Rendered \<lparr>analyser = None, meshRef = True, elapsedTime = 7, random = (\<lambda>_. 0)\<rparr>]
               (FilledWaveform_mount FilledWaveform_defaults (\<lambda>_. 0));
         G = OutlineWaveform_run OutlineWaveform_defaults
               [Timer, Rendered \<lparr>analyser = None, meshRef = True, elapsedTime = 7, random = (\<lambda>_. 0)\<rparr>]
               (OutlineWaveform_mount OutlineWaveform_defaults (\<lambda>_. 0))
     in positions F ! (5 * 6) = cos (angle 5) * baseRadius FilledWaveform_defaults \<and>
        positions F ! (5 * 6 + 1) = sin (angle 5) * baseRadius FilledWaveform_defaults \<and>
        positions F ! (5 * 6 + 2) = 0 \<and>
        positions F = positions (FilledWaveform_mount FilledWaveform_defaults (\<lambda>_. 0)) \<and>
        currentRadii F = replicate bufferLength (baseRadius FilledWaveform_defaults) \<and>
        previousSpeedMultiplier F = 1 \<and>
        positions G ! (5 * 3) = cos (angle 5) * baseRadius OutlineWaveform_defaults \<and>
        positions G ! (5 * 3 + 1) = sin (angle 5) * baseRadius OutlineWaveform_defaults \<and>
        positions G ! (5 * 3 + 2) = 0 \<and>
        positions G = positions (OutlineWaveform_mount OutlineWaveform_defaults (\<lambda>_. 0)) \<and>
        currentRadii G = replicate bufferLength (baseRadius OutlineWaveform_defaults) \<and>
        previousSpeedMultiplier G = 1))"
proof -
  let ?fr = "\<lparr>analyser = None, meshRef = True, elapsedTime = 7, random = (\<lambda>_. 0)\<rparr>"
  have h1: "analyser ?fr = None" by simp
  have h2: "\<forall>ev \<in> set [Timer, Rendered ?fr]. unavailable ev" by simp
  have h3: "(5::nat) < bufferLength" by (simp add: bufferLength_def)
  have h4: "unavailable Timer"
    "unavailable (Rendered ?fr)" by simp_all
  show ?thesis
    using h1 h3 h4
      no_analyser_static [OF h1 h2 h3, of FilledWaveform_defaults
        "FilledWaveform_mount FilledWaveform_defaults (\<lambda>_. 0)" OutlineWaveform_defaults
        "OutlineWaveform_mount OutlineWaveform_defaults (\<lambda>_. 0)" "\<lambda>_. 0" "\<lambda>_. 0"]
    by blast
qed

section \<open>Cells that no frame writes\<close>

lemma useFrame_keeps_cell:
  "k mod 6 \<noteq> 0 \<Longrightarrow> k mod 6 \<noteq> 1 \<Longrightarrow>
     positions (FilledWaveform_useFrame fp fr fs) ! k = positions fs ! k"
  "k mod 3 \<noteq> 0 \<Longrightarrow> k mod 3 \<noteq> 1 \<Longrightarrow>
     positions (OutlineWaveform_useFrame op fr os) ! k = positions os ! k"
  by (simp_all add: FilledWaveform_useFrame_def OutlineWaveform_useFrame_def Let_def
      vertexLoop_keeps_cell split: option.splits)

lemma run_keeps_cell_filled:
  assumes "k mod 6 \<noteq> 0" "k mod 6 \<noteq> 1"
  shows "positions (FilledWaveform_run fp evs fs) ! k = positions fs ! k"
  unfolding FilledWaveform_run_def
proof (induction evs arbitrary: fs)
  case Nil
  then show ?case by simp
next
  case (Cons ev evs)
  have "positions (FilledWaveform_event fp ev fs) ! k = positions fs ! k"
    using useFrame_keeps_cell(1) [OF assms] by (cases ev) simp_all
  then show ?case using Cons.IH by simp
qed

lemma run_keeps_cell_outline:
  assumes "k mod 3 \<noteq> 0" "k mod 3 \<noteq> 1"
  shows "positions (OutlineWaveform_run op evs os) ! k = positions os ! k"
  unfolding OutlineWaveform_run_def
proof (induction evs arbitrary: os)
  case Nil
  then show ?case by simp
next
  case (Cons ev evs)
  have "positions (OutlineWaveform_event op ev os) ! k = positions os ! k"
    using useFrame_keeps_cell(2) [OF assms] by (cases ev) simp_all
  then show ?case using Cons.IH by simp
qed

text \<open>
  Claim C10. A frame writes only the x and y cells of edge vertices: every other cell of
  the position array keeps its value in one frame, and from the mount on, after any
  sequence of events, the z cell of every edge vertex and the three cells of every centre
  vertex of the filled layer (cells 6i+2 and 6i+3..6i+5) and the z cell of every vertex of
  the outline (cell 3i+2) are 0.
\<close>

theorem frame_writes_edge_xy_only:
  assumes "i < bufferLength"
  shows "(k mod 6 \<noteq> 0 \<and> k mod 6 \<noteq> 1 \<longrightarrow>
            positions (FilledWaveform_useFrame fp fr fs) ! k = positions fs ! k) \<and>
         (k mod 3 \<noteq> 0 \<and> k mod 3 \<noteq> 1 \<longrightarrow>
            positions (OutlineWaveform_useFrame op fr os) ! k = positions os ! k) \<and>
         (let F = FilledWaveform_run fp evs (FilledWaveform_mount fp d);
              G = OutlineWaveform_run op evs' (OutlineWaveform_mount op d')
          in positions F ! (i * 6 + 2) = 0 \<and>
             positions F ! (i * 6 + 3) = 0 \<and>
             positions F ! (i * 6 + 4) = 0 \<and>
             positions F ! (i * 6 + 5) = 0 \<and>
             positions G ! (i * 3 + 2) = 0)"
proof -
  have f: "positions (FilledWaveform_mount fp d) = FilledWaveform_positions (baseRadius fp)"
    by (simp add: FilledWaveform_mount_def)
  have o: "positions (OutlineWaveform_mount op d') = OutlineWaveform_positions (baseRadius op)"
    by (simp add: OutlineWaveform_mount_def)
  have m: "(i * 6 + 2) mod 6 \<noteq> 0" "(i * 6 + 2) mod 6 \<noteq> 1"
    "(i * 6 + 3) mod 6 \<noteq> 0" "(i * 6 + 3) mod 6 \<noteq> 1"
    "(i * 6 + 4) mod 6 \<noteq> 0" "(i * 6 + 4) mod 6 \<noteq> 1"
    "(i * 6 + 5) mod 6 \<noteq> 0" "(i * 6 + 5) mod 6 \<noteq> 1"
    "(i * 3 + 2) mod 3 \<noteq> 0" "(i * 3 + 2) mod 3 \<noteq> 1"
    by (simp_all only: cell_index)
  have "positions (FilledWaveform_run fp evs (FilledWaveform_mount fp d)) ! (i * 6 + 2) = 0"
    by (simp only: run_keeps_cell_filled [OF m(1,2)] f initial_circle [OF assms])
  moreover have "positions (FilledWaveform_run fp evs (FilledWaveform_mount fp d)) ! (i * 6 + 3) = 0"
    by (simp only: run_keeps_cell_filled [OF m(3,4)] f initial_circle [OF assms])
  moreover have "positions (FilledWaveform_run fp evs (FilledWaveform_mount fp d)) ! (i * 6 + 4) = 0"
    by (simp only: run_keeps_cell_filled [OF m(5,6)] f initial_circle [OF assms])
  moreover have "positions (FilledWaveform_run fp evs (FilledWaveform_mount fp d)) ! (i * 6 + 5) = 0"
    by (simp only: run_keeps_cell_filled [OF m(7,8)] f initial_circle [OF assms])
  moreover have "positions (OutlineWaveform_run op evs' (OutlineWaveform_mount op d')) ! (i * 3 + 2) = 0"
    by (simp only: run_keeps_cell_outline [OF m(9,10)] o initial_circle [OF assms])
  ultimately show ?thesis
    unfolding Let_def using useFrame_keeps_cell(1) [of k fp fr fs] useFrame_keeps_cell(2) [of k op fr os]
    by blast
qed

section \<open>The running speed multiplier\<close>

lemma blend_le:
  fixes p T b :: real
  assumes "p \<le> 2" "T \<le> 2" "0 \<le> b" "b \<le> 1"
  shows "p + (T - p) * b \<le> 2"
proof -
  have "2 - (p + (T - p) * b) = (2 - p) * (1 - b) + (2 - T) * b"
    by (simp add: algebra_simps)
  moreover have "0 \<le> (2 - p) * (1 - b)" using assms by (intro mult_nonneg_nonneg) simp_all
  moreover have "0 \<le> (2 - T) * b" using assms by (intro mult_nonneg_nonneg) simp_all
  ultimately show ?thesis by linarith
qed

lemma targetSpeedMultiplier_le: "targetSpeedMultiplier avg scale \<le> 2"
  by (simp add: targetSpeedMultiplier_def)

lemma speed_event_filled:
  assumes "0 \<le> min 0.05 (smoothingFactor fp)" "min 0.05 (smoothingFactor fp) \<le> 1"
    "previousSpeedMultiplier fs \<le> 2"
  shows "previousSpeedMultiplier (FilledWaveform_event fp ev fs) \<le> 2"
proof (cases ev)
  case (Rendered fr)
  show ?thesis
    using assms blend_le [OF assms(3) targetSpeedMultiplier_le assms(1,2)]
    by (simp add: Rendered FilledWaveform_useFrame_def Let_def split: option.splits)
next
  case Timer
  then show ?thesis using assms by simp
qed

lemma speed_event_outline:
  assumes "\<forall>avg prev. 0 \<le> dynamicSmoothingFactor op avg prev \<and> dynamicSmoothingFactor op avg prev \<le> 1"
    "previousSpeedMultiplier os \<le> 2"
  shows "previousSpeedMultiplier (OutlineWaveform_event op ev os) \<le> 2"
proof (cases ev)
  case (Rendered fr)
  have "\<And>avg. previousSpeedMultiplier os
          + (targetSpeedMultiplier avg 0.5 - previousSpeedMultiplier os)
            * dynamicSmoothingFactor op avg (previousAudioLevel os) \<le> 2"
    using assms(1) by (intro blend_le assms(2) targetSpeedMultiplier_le) simp_all
  then show ?thesis
    using assms(2)
    by (simp add: Rendered OutlineWaveform_useFrame_def Let_def split: option.splits)
next
  case Timer
  then show ?thesis using assms by simp
qed

lemma speed_run_filled:
  assumes "0 \<le> min 0.05 (smoothingFactor fp)" "min 0.05 (smoothingFactor fp) \<le> 1"
    "previousSpeedMultiplier fs \<le> 2"
  shows "previousSpeedMultiplier (FilledWaveform_run fp evs fs) \<le> 2"
  using assms(3) unfolding FilledWaveform_run_def
  by (induction evs arbitrary: fs) (simp_all add: speed_event_filled [OF assms(1,2)])

lemma speed_run_outline:
  assumes "\<forall>avg prev. 0 \<le> dynamicSmoothingFactor op avg prev \<and> dynamicSmoothingFactor op avg prev \<le> 1"
    "previousSpeedMultiplier os \<le> 2"
  shows "previousSpeedMultiplier (OutlineWaveform_run op evs os) \<le> 2"
  using assms(2) unfolding OutlineWaveform_run_def
  by (induction evs arbitrary: os) (simp_all add: speed_event_outline [OF assms(1)])

text \<open>
  Claim C2. The running speed multiplier starts at 1 and each frame blends it toward a
  target that is at most 2.0; when the blend factor lies in [0,1] (in the filled layer it is
  min(0.05, smoothingFactor), in the outline the dynamic smoothing factor), the multiplier is
  at most 2.0 after every sequence of events from the mount, whatever the audio buffers.
\<close>

theorem speed_multiplier_bounded:
  "(0 \<le> min 0.05 (smoothingFactor fp) \<and> min 0.05 (smoothingFactor fp) \<le> 1 \<longrightarrow>
      previousSpeedMultiplier (FilledWaveform_run fp evs (FilledWaveform_mount fp d)) \<le> 2) \<and>
   ((\<forall>avg prev. 0 \<le> dynamicSmoothingFactor op avg prev \<and> dynamicSmoothingFactor op avg prev \<le> 1) \<longrightarrow>
      previousSpeedMultiplier (OutlineWaveform_run op evs' (OutlineWaveform_mount op d')) \<le> 2)"
proof (intro conjI impI)
  assume "0 \<le> min 0.05 (smoothingFactor fp) \<and> min 0.05 (smoothingFactor fp) \<le> 1"
  then show "previousSpeedMultiplier (FilledWaveform_run fp evs (FilledWaveform_mount fp d)) \<le> 2"
    by (intro speed_run_filled) (simp_all add: FilledWaveform_mount_def)
next
  assume "\<forall>avg prev. 0 \<le> dynamicSmoothingFactor op avg prev \<and> dynamicSmoothingFactor op avg prev \<le> 1"
  then show "previousSpeedMultiplier (OutlineWaveform_run op evs' (OutlineWaveform_mount op d')) \<le> 2"
    by (intro speed_run_outline) (simp_all add: OutlineWaveform_mount_def)
qed

section \<open>Constant buffers\<close>






lemma audible_constantFrame: "audible (constantFrame b t rnd) (replicate bufferLength b)"
  by (simp add: audible_def constantFrame_def)


subsection \<open>Instances with the default parameters\<close>

theorem frame_writes_edge_xy_only_witness:
  "(5::nat) < bufferLength \<and> (2::nat) mod 6 \<noteq> 0 \<and> (2::nat) mod 6 \<noteq> 1 \<and>
   (2::nat) mod 3 \<noteq> 0 \<and> (2::nat) mod 3 \<noteq> 1 \<and>
   positions (FilledWaveform_useFrame FilledWaveform_defaults (constantFrame 255 1 (\<lambda>_. 0))
      (FilledWaveform_mount FilledWaveform_defaults (\<lambda>_. 0))) ! 2
     = positions (FilledWaveform_mount FilledWaveform_defaults (\<lambda>_. 0)) ! 2 \<and>
   positions (OutlineWaveform_useFrame OutlineWaveform_defaults (constantFrame 255 1 (\<lambda>_. 0))
      (OutlineWaveform_mount OutlineWaveform_defaults (\<lambda>_. 0))) ! 2
     = positions (OutlineWaveform_mount OutlineWaveform_defaults (\<lambda>_. 0)) ! 2 \<and>
   positions (FilledWaveform_run FilledWaveform_defaults [Rendered (constantFrame 255 1 (\<lambda>_. 0))]
      (FilledWaveform_mount FilledWaveform_defaults (\<lambda>_. 0))) ! (5 * 6 + 3) = 0 \<and>
   positions (OutlineWaveform_run OutlineWaveform_defaults [Rendered (constantFrame 255 1 (\<lambda>_. 0))]
      (OutlineWaveform_mount OutlineWaveform_defaults (\<lambda>_. 0))) ! (5 * 3 + 2) = 0"
proof -
  have h: "(5::nat) < bufferLength" by (simp add: bufferLength_def)
  have m: "(2::nat) mod 6 \<noteq> 0 \<and> (2::nat) mod 6 \<noteq> 1" "(2::nat) mod 3 \<noteq> 0 \<and> (2::nat) mod 3 \<noteq> 1"
    by simp_all
  note t = frame_writes_edge_xy_only [OF h, of 2 FilledWaveform_defaults
      "constantFrame 255 1 (\<lambda>_. 0)" "FilledWaveform_mount FilledWaveform_defaults (\<lambda>_. 0)"
      OutlineWaveform_defaults "OutlineWaveform_mount OutlineWaveform_defaults (\<lambda>_. 0)"
      "[Rendered (constantFrame 255 1 (\<lambda>_. 0))]" "\<lambda>_. 0"
      "[Rendered (constantFrame 255 1 (\<lambda>_. 0))]" "\<lambda>_. 0", unfolded Let_def]
  show ?thesis using h m t by blast
qed

theorem speed_multiplier_bounded_witness:
  "0 \<le> min 0.05 (smoothingFactor FilledWaveform_defaults) \<and>
   min 0.05 (smoothingFactor FilledWaveform_defaults) \<le> 1 \<and>
   (\<forall>avg prev. 0 \<le> dynamicSmoothingFactor OutlineWaveform_defaults avg prev \<and>
      dynamicSmoothingFactor OutlineWaveform_defaults avg prev \<le> 1) \<and>
   previousSpeedMultiplier (FilledWaveform_run FilledWaveform_defaults
      [Rendered (constantFrame 255 1 (\<lambda>_. 0)), Rendered (constantFrame 0 2 (\<lambda>_. 0))]
      (FilledWaveform_mount FilledWaveform_defaults (\<lambda>_. 0))) \<le> 2 \<and>
   previousSpeedMultiplier (OutlineWaveform_run OutlineWaveform_defaults
      [Rendered (constantFrame 255 1 (\<lambda>_. 0)), Rendered (constantFrame 0 2 (\<lambda>_. 0))]
      (OutlineWaveform_mount OutlineWaveform_defaults (\<lambda>_. 0))) \<le> 2"
proof -
  have f: "0 \<le> min 0.05 (smoothingFactor FilledWaveform_defaults) \<and>
           min 0.05 (smoothingFactor FilledWaveform_defaults) \<le> 1"
    by (simp add: FilledWaveform_defaults_def)
  have o: "\<forall>avg prev. 0 \<le> dynamicSmoothingFactor OutlineWaveform_defaults avg prev \<and>
      dynamicSmoothingFactor OutlineWaveform_defaults avg prev \<le> 1"
    by (simp add: dynamicSmoothingFactor_def OutlineWaveform_defaults_def)
  note t = speed_multiplier_bounded [of FilledWaveform_defaults
      "[Rendered (constantFrame 255 1 (\<lambda>_. 0)), Rendered (constantFrame 0 2 (\<lambda>_. 0))]" "\<lambda>_. 0"
      OutlineWaveform_defaults
      "[Rendered (constantFrame 255 1 (\<lambda>_. 0)), Rendered (constantFrame 0 2 (\<lambda>_. 0))]" "\<lambda>_. 0"]
  show ?thesis using f o t by blast
qed



text \<open>
  Claim C6, as the specification states it, fails: the divisor is the buffer length 512, not
  511, already at index 1.
\<close>

theorem angle_divisor_counterexample: "angle 1 \<noteq> 1 / 511 * (2 * pi) - pi / 2"
  by (simp add: angle_def bufferLength_def)

text \<open>
  Claim C6, amended. The angle of index i is i/512 * 2 pi - pi/2 (the divisor is the
  buffer length), and this is the angle at which a frame of either layer places the edge
  vertex of index i: its x and y cells are the cosine and the sine of that angle times
  the radius rendered for i.
\<close>

theorem angle_of_index:
  assumes "audible fr dataArray" "i < bufferLength"
    "length (currentRadii fs) = bufferLength" "length (positions fs) = bufferLength * 2 * 3"
    "length (currentRadii os) = bufferLength" "length (positions os) = bufferLength * 3"
  shows "angle i = real i / 512 * (2 * pi) - pi / 2 \<and>
         positions (FilledWaveform_useFrame fp fr fs) ! (i * 6) =
           cos (real i / 512 * (2 * pi) - pi / 2)
           * renderedRadius fp (FilledWaveform_useFrame fp fr fs) (elapsedTime fr) i \<and>
         positions (FilledWaveform_useFrame fp fr fs) ! (i * 6 + 1) =
           sin (real i / 512 * (2 * pi) - pi / 2)
           * renderedRadius fp (FilledWaveform_useFrame fp fr fs) (elapsedTime fr) i \<and>
         positions (OutlineWaveform_useFrame op fr os) ! (i * 3) =
           cos (real i / 512 * (2 * pi) - pi / 2)
           * renderedRadius op (OutlineWaveform_useFrame op fr os) (elapsedTime fr) i \<and>
         positions (OutlineWaveform_useFrame op fr os) ! (i * 3 + 1) =
           sin (real i / 512 * (2 * pi) - pi / 2)
           * renderedRadius op (OutlineWaveform_useFrame op fr os) (elapsedTime fr) i"
proof -
  have a: "angle i = real i / 512 * (2 * pi) - pi / 2"
    by (simp add: angle_def bufferLength_def)
  show ?thesis
    using FilledWaveform_frame_position [OF assms(1,2,3,4), of fp]
      OutlineWaveform_frame_position [OF assms(1,2,5,6), of op] a
    by simp
qed

theorem angle_of_index_witness:
  "audible (constantFrame 255 1 (\<lambda>_. 0)) (replicate bufferLength 255) \<and>
   (511::nat) < bufferLength \<and>
   length (currentRadii (FilledWaveform_mount FilledWaveform_defaults (\<lambda>_. 0))) = bufferLength \<and>
   length (positions (FilledWaveform_mount FilledWaveform_defaults (\<lambda>_. 0))) = bufferLength * 2 * 3 \<and>
   length (currentRadii (OutlineWaveform_mount OutlineWaveform_defaults (\<lambda>_. 0))) = bufferLength \<and>
   length (positions (OutlineWaveform_mount OutlineWaveform_defaults (\<lambda>_. 0))) = bufferLength * 3 \<and>
   angle 511 = real 511 / 512 * (2 * pi) - pi / 2 \<and>
   positions (FilledWaveform_useFrame FilledWaveform_defaults (constantFrame 255 1 (\<lambda>_. 0))
       (FilledWaveform_mount FilledWaveform_defaults (\<lambda>_. 0))) ! (511 * 6) =
     cos (real 511 / 512 * (2 * pi) - pi / 2)
     * renderedRadius FilledWaveform_defaults
         (FilledWaveform_useFrame FilledWaveform_defaults (constantFrame 255 1 (\<lambda>_. 0))
            (FilledWaveform_mount FilledWaveform_defaults (\<lambda>_. 0)))
         (elapsedTime (constantFrame 255 1 (\<lambda>_. 0))) 511 \<and>
   positions (OutlineWaveform_useFrame OutlineWaveform_defaults (constantFrame 255 1 (\<lambda>_. 0))
       (OutlineWaveform_mount OutlineWaveform_defaults (\<lambda>_. 0))) ! (511 * 3 + 1) =
     sin (real 511 / 512 * (2 * pi) - pi / 2)
     * renderedRadius OutlineWaveform_defaults
         (OutlineWaveform_useFrame OutlineWaveform_defaults (constantFrame 255 1 (\<lambda>_. 0))
            (OutlineWaveform_mount OutlineWaveform_defaults (\<lambda>_. 0)))
         (elapsedTime (constantFrame 255 1 (\<lambda>_. 0))) 511"
proof -
  have h: "(511::nat) < bufferLength" by (simp add: bufferLength_def)
  note t = angle_of_index [where fr = "constantFrame 255 1 (\<lambda>_. 0)"
      and dataArray = "replicate bufferLength 255" and i = 511
      and fs = "FilledWaveform_mount FilledWaveform_defaults (\<lambda>_. 0)"
      and os = "OutlineWaveform_mount OutlineWaveform_defaults (\<lambda>_. 0)"
      and fp = FilledWaveform_defaults and op = OutlineWaveform_defaults,
      OF audible_constantFrame h length_mount(1) length_mount(2)
      length_mount(3) length_mount(4)]
  show ?thesis
    using audible_constantFrame [of 255 1 "\<lambda>_. 0"] h
      length_mount(1) [of FilledWaveform_defaults "\<lambda>_. 0"]
      length_mount(2) [of FilledWaveform_defaults "\<lambda>_. 0"]
      length_mount(3) [of OutlineWaveform_defaults "\<lambda>_. 0"]
      length_mount(4) [of OutlineWaveform_defaults "\<lambda>_. 0"] t
    by blast
qed

section \<open>The six layers\<close>

lemma AudioWaveform_length: "length (AudioWaveform z a u s p) = 6"
  by (simp add: AudioWaveform_def)

lemma below_six:
  fixes j :: nat
  assumes "j < 6"
  shows "j = 0 \<or> j = 1 \<or> j = 2 \<or> j = 3 \<or> j = 4 \<or> j = 5"
  using assms by linarith

text \<open>
  Claim C7, as stated, fails: the first outline layer is the same for the speed factors
  0.04 and 3.
\<close>

theorem outline_ignores_speed_counterexample:
  "(0.04::real) \<noteq> 3 \<and>
   AudioWaveform 4.4 0.89 0.78 0.04 1.25 ! 1 = AudioWaveform 4.4 0.89 0.78 3 1.25 ! 1"
  by (simp add: AudioWaveform_def)

text \<open>
  Claim C7, amended. There are six layers. Changing the size, the amplitude factor, the
  audio factor or the pulse scale changes the derived parameters of every layer; changing
  the speed factor changes those of the three filled layers (positions 0, 2, 4) and
  leaves those of the three outline layers (positions 1, 3, 5) as they are.
\<close>

theorem layers_derive_from_controls:
  "length (AudioWaveform z a u s p) = 6 \<and>
   (\<forall>j<6. (z \<noteq> z' \<longrightarrow> AudioWaveform z a u s p ! j \<noteq> AudioWaveform z' a u s p ! j) \<and>
           (a \<noteq> a' \<longrightarrow> AudioWaveform z a u s p ! j \<noteq> AudioWaveform z a' u s p ! j) \<and>
           (u \<noteq> u' \<longrightarrow> AudioWaveform z a u s p ! j \<noteq> AudioWaveform z a u' s p ! j) \<and>
           (p \<noteq> p' \<longrightarrow> AudioWaveform z a u s p ! j \<noteq> AudioWaveform z a u s p' ! j)) \<and>
   (\<forall>j \<in> {0, 2, 4}. s \<noteq> s' \<longrightarrow> AudioWaveform z a u s p ! j \<noteq> AudioWaveform z a u s' p ! j) \<and>
   (\<forall>j \<in> {1, 3, 5}. AudioWaveform z a u s p ! j = AudioWaveform z a u s' p ! j)"
proof (intro conjI allI impI ballI)
  show "length (AudioWaveform z a u s p) = 6" by (rule AudioWaveform_length)
next
  fix j :: nat assume "j < 6" and ne: "z \<noteq> z'"
  from below_six [OF this(1)] ne
  show "AudioWaveform z a u s p ! j \<noteq> AudioWaveform z' a u s p ! j"
    by (auto simp add: AudioWaveform_def FilledWaveform_defaults_def OutlineWaveform_defaults_def)
next
  fix j :: nat assume "j < 6" and ne: "a \<noteq> a'"
  from below_six [OF this(1)] ne
  show "AudioWaveform z a u s p ! j \<noteq> AudioWaveform z a' u s p ! j"
    by (auto simp add: AudioWaveform_def FilledWaveform_defaults_def OutlineWaveform_defaults_def)
next
  fix j :: nat assume "j < 6" and ne: "u \<noteq> u'"
  from below_six [OF this(1)] ne
  show "AudioWaveform z a u s p ! j \<noteq> AudioWaveform z a u' s p ! j"
    by (auto simp add: AudioWaveform_def FilledWaveform_defaults_def OutlineWaveform_defaults_def)
next
  fix j :: nat assume "j < 6" and ne: "p \<noteq> p'"
  from below_six [OF this(1)] ne
  show "AudioWaveform z a u s p ! j \<noteq> AudioWaveform z a u s p' ! j"
    by (auto simp add: AudioWaveform_def FilledWaveform_defaults_def OutlineWaveform_defaults_def)
next
  fix j :: nat assume "j \<in> {0, 2, 4}" and ne: "s \<noteq> s'"
  then show "AudioWaveform z a u s p ! j \<noteq> AudioWaveform z a u s' p ! j"
    by (auto simp add: AudioWaveform_def FilledWaveform_defaults_def OutlineWaveform_defaults_def)
next
  fix j :: nat assume "j \<in> {1, 3, 5}"
  then show "AudioWaveform z a u s p ! j = AudioWaveform z a u s' p ! j"
    by (auto simp add: AudioWaveform_def)
qed

theorem layers_derive_from_controls_witness:
  "(4.4::real) \<noteq> 5 \<and> (0.89::real) \<noteq> 1 \<and> (0.78::real) \<noteq> 1 \<and> (1.25::real) \<noteq> 2 \<and>
   (0.04::real) \<noteq> 3 \<and> (3::nat) < 6 \<and> (2::nat) \<in> {0, 2, 4} \<and> (3::nat) \<in> {1, 3, 5} \<and>
   AudioWaveform 4.4 0.89 0.78 0.04 1.25 ! 3 \<noteq> AudioWaveform 5 0.89 0.78 0.04 1.25 ! 3 \<and>
   AudioWaveform 4.4 0.89 0.78 0.04 1.25 ! 3 \<noteq> AudioWaveform 4.4 1 0.78 0.04 1.25 ! 3 \<and>
   AudioWaveform 4.4 0.89 0.78 0.04 1.25 ! 3 \<noteq> AudioWaveform 4.4 0.89 1 0.04 1.25 ! 3 \<and>
   AudioWaveform 4.4 0.89 0.78 0.04 1.25 ! 3 \<noteq> AudioWaveform 4.4 0.89 0.78 0.04 2 ! 3 \<and>
   AudioWaveform 4.4 0.89 0.78 0.04 1.25 ! 2 \<noteq> AudioWaveform 4.4 0.89 0.78 3 1.25 ! 2 \<and>
   AudioWaveform 4.4 0.89 0.78 0.04 1.25 ! 3 = AudioWaveform 4.4 0.89 0.78 3 1.25 ! 3"
proof -
  have n: "(4.4::real) \<noteq> 5" "(0.89::real) \<noteq> 1" "(0.78::real) \<noteq> 1" "(1.25::real) \<noteq> 2"
    "(0.04::real) \<noteq> 3" "(3::nat) < 6" "(2::nat) \<in> {0, 2, 4}" "(3::nat) \<in> {1, 3, 5}"
    by simp_all
  note t = layers_derive_from_controls [where z = "4.4" and a = "0.89" and u = "0.78"
      and s = "0.04" and p = "1.25" and z' = 5 and a' = 1 and u' = 1 and p' = 2 and s' = 3]
  show ?thesis using n t by blast
qed

section \<open>Sequences of frames\<close>




section \<open>The loud scenario\<close>














subsection \<open>The filled layers at the scene's initial control values\<close>









subsection \<open>The bound of the specification\<close>












end
